theory Spec2Isabelle
  imports Main "HOL-Library.Sublist"
begin

section \<open>The HTTP client wrapper of the DJD Agent Score server (src/client.ts)\<close>

text \<open>
  The module keeps one module-level variable \<open>config\<close> that refers to a configuration
  object, two operations on it (\<open>setConfig\<close>, \<open>getConfig\<close>) and the request helper
  \<open>apiRequest\<close>. Objects live in a store, so that a copy and the object it was copied
  from are told apart; \<open>apiRequest\<close> is an asynchronous function, modelled as a function of
  the world it starts in and of what happens while it is suspended.
\<close>

subsection \<open>Numbers and strings\<close>

text \<open>
  \<open>timeoutMs\<close> and \<open>response.status\<close> are JavaScript numbers; the model keeps the
  integers among them. A template literal renders such a number in decimal, with a
  leading minus sign when negative (integers below \<open>10^21\<close> in magnitude).
\<close>

definition digit_char :: "nat \<Rightarrow> char" where
  "digit_char d = ''0123456789'' ! d"

function string_of_nat :: "nat \<Rightarrow> string" where
  "string_of_nat n =
     (if n < 10 then [digit_char n]
      else string_of_nat (n div 10) @ [digit_char (n mod 10)])"
  by pat_completeness auto
termination
  by (relation "measure (\<lambda>n. n)") auto

declare string_of_nat.simps [simp del]

definition Number_toString :: "int \<Rightarrow> string" where
  "Number_toString i =
     (if i < 0 then CHR ''-'' # string_of_nat (nat (- i)) else string_of_nat (nat i))"

text \<open>\<open>s.includes(pat)\<close>: \<open>pat\<close> occurs in \<open>s\<close> as a contiguous run of characters.\<close>

definition str_includes :: "string \<Rightarrow> string \<Rightarrow> bool" where
  "str_includes s pat = sublist pat s"

subsection \<open>The configuration store\<close>

text \<open>\<open>interface ServerConfig { baseUrl: string; timeoutMs: number }\<close> (types.ts).\<close>

record ServerConfig =
  baseUrl :: string
  timeoutMs :: int

text \<open>
  \<open>Partial<ServerConfig>\<close>: each field is either not provided (\<open>None\<close>) or provided with
  a value of its declared type.
\<close>

record PartialServerConfig =
  baseUrl_opt :: "string option"
  timeoutMs_opt :: "int option"

type_synonym ref = nat

text \<open>
  The world a call runs in: the store of configuration objects with its allocation
  counter, the module variable \<open>config\<close> (a reference into the store), and the timers
  of the event loop that are pending, each with the delay it was started with.
\<close>

record world =
  heap :: "ref \<Rightarrow> ServerConfig option"
  next_ref :: ref
  config :: ref
  timers :: "(nat \<times> int) list"
  next_timer :: nat

text \<open>An object literal allocates a fresh object.\<close>

definition new_object :: "ServerConfig \<Rightarrow> world \<Rightarrow> ref \<times> world" where
  "new_object c w =
     (next_ref w, w\<lparr>heap := (heap w)(next_ref w \<mapsto> c), next_ref := Suc (next_ref w)\<rparr>)"

definition deref :: "world \<Rightarrow> ref \<Rightarrow> ServerConfig" where
  "deref w r = the (heap w r)"

text \<open>Reading the module variable: \<open>config.baseUrl\<close>, \<open>config.timeoutMs\<close>.\<close>

definition current_config :: "world \<Rightarrow> ServerConfig" where
  "current_config w = deref w (config w)"

text \<open>
  \<open>{ ...c, ...overrides }\<close>: the properties of \<open>c\<close>, then those of \<open>overrides\<close> over
  them.
\<close>

definition spread :: "ServerConfig \<Rightarrow> PartialServerConfig \<Rightarrow> ServerConfig" where
  "spread c ov =
     \<lparr>baseUrl = (case baseUrl_opt ov of None \<Rightarrow> baseUrl c | Some b \<Rightarrow> b),
      timeoutMs = (case timeoutMs_opt ov of None \<Rightarrow> timeoutMs c | Some t \<Rightarrow> t)\<rparr>"

text \<open>\<open>config = { ...config, ...overrides }\<close>\<close>

definition setConfig :: "PartialServerConfig \<Rightarrow> world \<Rightarrow> world" where
  "setConfig overrides w =
     (let (r, w') = new_object (spread (current_config w) overrides) w
      in w'\<lparr>config := r\<rparr>)"

text \<open>\<open>return { ...config }\<close>\<close>

definition getConfig :: "world \<Rightarrow> ref \<times> world" where
  "getConfig w = new_object (current_config w) w"

text \<open>
  What a caller can do to an object it holds a reference to: assign to its fields.
  Any change of the object's contents is a function on them.
\<close>

definition mutate :: "ref \<Rightarrow> (ServerConfig \<Rightarrow> ServerConfig) \<Rightarrow> world \<Rightarrow> world" where
  "mutate r f w = w\<lparr>heap := (heap w)(r \<mapsto> f (deref w r))\<rparr>"

text \<open>
  \<open>DEFAULT_CONFIG\<close> and \<open>let config = { ...DEFAULT_CONFIG }\<close>. The base URL comes from the
  environment variable \<open>DJD_BASE_URL\<close> when that is set and not empty.
\<close>

definition DEFAULT_CONFIG :: "string option \<Rightarrow> ServerConfig" where
  "DEFAULT_CONFIG env_base =
     \<lparr>baseUrl = (case env_base of
                    None \<Rightarrow> ''https://djd-agent-score.fly.dev''
                  | Some b \<Rightarrow> if b = [] then ''https://djd-agent-score.fly.dev'' else b),
      timeoutMs = 10000\<rparr>"

definition initial_world :: "string option \<Rightarrow> world" where
  "initial_world env_base =
     (let w0 = \<lparr>heap = (\<lambda>_. None), next_ref = 0, config = 0, timers = [], next_timer = 0\<rparr>;
          (d, w1) = new_object (DEFAULT_CONFIG env_base) w0;
          (r, w2) = new_object (deref w1 d) w1
      in w2\<lparr>config := r\<rparr>)"

text \<open>
  Every reference in use was handed out by the allocator: the module variable refers to
  an allocated object.
\<close>

definition well_formed :: "world \<Rightarrow> bool" where
  "well_formed w \<longleftrightarrow> config w < next_ref w"

subsection \<open>Values, errors and outcomes\<close>

text \<open>
  \<open>body?: unknown\<close>: the values a caller hands over for serialisation, and the values a
  JSON response parses to. Numbers are kept to the integers.
\<close>

datatype json =
    JNull
  | JBool bool
  | JNum int
  | JStr string
  | JArr "json list"
  | JObj "(string \<times> json) list"

text \<open>The truth value JavaScript gives a value in a condition (\<open>body ? \<dots> : \<dots>\<close>).\<close>

fun truthy :: "json \<Rightarrow> bool" where
  "truthy JNull = False"
| "truthy (JBool b) = b"
| "truthy (JNum n) = (n \<noteq> 0)"
| "truthy (JStr s) = (s \<noteq> [])"
| "truthy (JArr xs) = True"
| "truthy (JObj kvs) = True"

text \<open>
  What the platform (the URL constructor, \<open>JSON.stringify\<close>, \<open>fetch\<close>, the methods of
  a \<open>Response\<close>) can throw: a \<open>DOMException\<close> with its name and message, any other
  \<open>Error\<close> object with its class name and message, or a value that is no \<open>Error\<close> at
  all, given by what \<open>String\<close> makes of it. The platform never throws the module's own
  \<open>ApiError\<close>. In Node a \<open>DOMException\<close> is an instance of \<open>Error\<close>.
\<close>

datatype platform_error =
    DOMException string string
  | ErrorObject string string
  | NonError string

text \<open>\<open>error instanceof Error ? error.message : String(error)\<close>\<close>

fun error_text :: "platform_error \<Rightarrow> string" where
  "error_text (DOMException n m) = m"
| "error_text (ErrorObject n m) = m"
| "error_text (NonError s) = s"

text \<open>\<open>error instanceof DOMException && error.name === "AbortError"\<close>\<close>

fun is_abort :: "platform_error \<Rightarrow> bool" where
  "is_abort (DOMException n m) = (n = ''AbortError'')"
| "is_abort (ErrorObject n m) = False"
| "is_abort (NonError s) = False"

text \<open>\<open>class ApiError extends Error\<close>: a message and the public field \<open>statusCode\<close>.\<close>

record ApiError =
  message :: string
  statusCode :: int

datatype thrown = Api ApiError | Raw platform_error

text \<open>The four places where \<open>apiRequest\<close> makes an \<open>ApiError\<close>, in source order.\<close>

definition payment_required_error :: "string \<Rightarrow> ApiError" where
  "payment_required_error text =
     \<lparr>message =
        ''Payment required (HTTP 402). This is a paid endpoint that requires x402 payment. '' @
        ''Your agent framework must handle the 402 response and provide payment. '' @
        ''Details: '' @ text,
      statusCode = 402\<rparr>"

definition http_error :: "int \<Rightarrow> string \<Rightarrow> ApiError" where
  "http_error st text =
     \<lparr>message = ''API request failed with status '' @ Number_toString st @ '': '' @ text,
      statusCode = st\<rparr>"

definition timeout_error :: "int \<Rightarrow> ApiError" where
  "timeout_error ms =
     \<lparr>message =
        ''Request timed out after '' @ Number_toString ms @
        ''ms. Try again or increase timeout.'',
      statusCode = 0\<rparr>"

definition network_error :: "platform_error \<Rightarrow> ApiError" where
  "network_error e = \<lparr>message = ''Network error: '' @ error_text e, statusCode = 0\<rparr>"

text \<open>
  The taxonomy of failures. The source has one error class; the kind of a failure is
  the place that made it.
\<close>

datatype kind = PaymentRequired | HttpError | Timeout | NetworkError

inductive failure_of_kind :: "kind \<Rightarrow> ApiError \<Rightarrow> bool" where
  "failure_of_kind PaymentRequired (payment_required_error text)"
| "failure_of_kind HttpError (http_error st text)"
| "failure_of_kind Timeout (timeout_error ms)"
| "failure_of_kind NetworkError (network_error e)"

text \<open>What a call returns: parsed JSON, or the body as text (\<open>as unknown as T\<close>).\<close>

datatype payload = Parsed json | Text string

subsection \<open>Requests, responses and the platform\<close>

datatype http_method = GET | POST

text \<open>
  \<open>interface RequestOptions\<close>. An optional field that is absent (or \<open>undefined\<close>) is
  \<open>None\<close>; \<open>params\<close> is given as \<open>Object.entries\<close> lists it. The field \<open>method\<close>
  of the source is \<open>req_method\<close> here.
\<close>

record RequestOptions =
  req_method :: "http_method option"
  path :: string
  params :: "(string \<times> string) list option"
  body :: "json option"

text \<open>
  An awaited promise of the transport either is fulfilled, or is rejected with an error
  of the transport's own, or is still pending when the call's timer fires, whose
  callback \<open>controller.abort()\<close> makes it reject with the abort error.
\<close>

datatype 'a settled = Fulfilled 'a | Rejected platform_error | TimerFirst

definition abort_error :: platform_error where
  "abort_error = DOMException ''AbortError'' ''This operation was aborted''"

text \<open>
  A \<open>Response\<close> as the code reads it: \<open>status\<close>, \<open>headers.get("content-type")\<close>, and
  what the promises of \<open>text()\<close> and \<open>json()\<close> do when awaited.
\<close>

record Response =
  status :: int
  content_type :: "string option"
  text_promise :: "string settled"
  json_promise :: "json settled"

text \<open>\<open>response.ok\<close>\<close>

definition ok :: "Response \<Rightarrow> bool" where
  "ok response \<longleftrightarrow> 200 \<le> status response \<and> status response \<le> 299"

text \<open>
  One run of a call: what the promise of \<open>fetch\<close> does, and the \<open>setConfig\<close> calls
  that other tasks make while the call is suspended at \<open>await fetch(\<dots>)\<close> and at the
  \<open>await\<close> of the body.
\<close>

record run =
  fetch_promise :: "Response settled"
  during_fetch :: "PartialServerConfig list"
  during_body :: "PartialServerConfig list"

text \<open>
  The platform functions the code calls, as parameters: the constructor \<open>new URL(path,
  base)\<close>, which throws on an input that is no URL, \<open>url.searchParams.set\<close>,
  \<open>url.toString()\<close> and \<open>JSON.stringify\<close>, which throws on a value it cannot serialise.
\<close>

record 'u platform =
  new_URL :: "string \<Rightarrow> string \<Rightarrow> platform_error + 'u"
  searchParams_set :: "'u \<Rightarrow> string \<Rightarrow> string \<Rightarrow> 'u"
  URL_toString :: "'u \<Rightarrow> string"
  JSON_stringify :: "json \<Rightarrow> platform_error + string"

text \<open>The arguments of the call of \<open>fetch\<close> (the abort signal apart).\<close>

record fetch_call =
  call_url :: string
  call_method :: http_method
  call_headers :: "(string \<times> string) list"
  call_body :: "string option"

subsection \<open>Timers\<close>

definition setTimeout :: "int \<Rightarrow> world \<Rightarrow> nat \<times> world" where
  "setTimeout delay w =
     (next_timer w,
      w\<lparr>timers := timers w @ [(next_timer w, delay)], next_timer := Suc (next_timer w)\<rparr>)"

definition clearTimeout :: "nat \<Rightarrow> world \<Rightarrow> world" where
  "clearTimeout t w = w\<lparr>timers := filter (\<lambda>(i, d). i \<noteq> t) (timers w)\<rparr>"

text \<open>A timer that fires has run its callback and is pending no longer.\<close>

definition timer_fires :: "nat \<Rightarrow> world \<Rightarrow> world" where
  "timer_fires t w = w\<lparr>timers := filter (\<lambda>(i, d). i \<noteq> t) (timers w)\<rparr>"

definition pending :: "world \<Rightarrow> nat set" where
  "pending w = fst ` set (timers w)"

subsection \<open>apiRequest\<close>

text \<open>
  \<open>await p\<close>: the call is suspended, other tasks run (here: their \<open>setConfig\<close> calls),
  and the call resumes with the value of the promise or with the error thrown.
\<close>

definition await ::
  "'a settled \<Rightarrow> PartialServerConfig list \<Rightarrow> nat \<Rightarrow> world \<Rightarrow> (platform_error + 'a) \<times> world" where
  "await p others timer w =
     (let w' = fold setConfig others w
      in case p of
           Fulfilled x \<Rightarrow> (Inr x, w')
         | Rejected e \<Rightarrow> (Inl e, w')
         | TimerFirst \<Rightarrow> (Inl abort_error, timer_fires timer w'))"

text \<open>The \<open>try\<close> block from the first statement after \<open>await fetch(\<dots>)\<close> on.\<close>

definition on_response ::
  "Response \<Rightarrow> run \<Rightarrow> nat \<Rightarrow> world \<Rightarrow> (thrown + payload) \<times> world" where
  "on_response response r timer w =
     (if status response = 402 then
        (case await (text_promise response) (during_body r) timer w of
           (Inl e, w') \<Rightarrow> (Inl (Raw e), w')
         | (Inr text, w') \<Rightarrow> (Inl (Api (payment_required_error text)), w'))
      else if \<not> ok response then
        (case await (text_promise response) (during_body r) timer w of
           (Inl e, w') \<Rightarrow> (Inl (Raw e), w')
         | (Inr text, w') \<Rightarrow> (Inl (Api (http_error (status response) text)), w'))
      else
        (let contentType =
               (case content_type response of
                  None \<Rightarrow> []
                | Some c \<Rightarrow> if c = [] then [] else c)
         in if str_includes contentType ''application/json'' then
              (case await (json_promise response) (during_body r) timer w of
                 (Inl e, w') \<Rightarrow> (Inl (Raw e), w')
               | (Inr v, w') \<Rightarrow> (Inr (Parsed v), w'))
            else
              (case await (text_promise response) (during_body r) timer w of
                 (Inl e, w') \<Rightarrow> (Inl (Raw e), w')
               | (Inr text, w') \<Rightarrow> (Inr (Text text), w'))))"

text \<open>\<open>body ? JSON.stringify(body) : undefined\<close>\<close>

definition body_argument :: "'u platform \<Rightarrow> json option \<Rightarrow> platform_error + string option" where
  "body_argument P b =
     (case b of
        None \<Rightarrow> Inr None
      | Some v \<Rightarrow>
          if truthy v then
            (case JSON_stringify P v of Inl e \<Rightarrow> Inl e | Inr s \<Rightarrow> Inr (Some s))
          else Inr None)"

text \<open>
  The \<open>try\<close> block: the arguments of \<open>fetch\<close> are evaluated, the call is made and
  awaited, the response is handled. The result is what the block returns or throws, the
  call of \<open>fetch\<close> if one was made, and the world at that moment.
\<close>

definition try_block ::
  "'u platform \<Rightarrow> http_method \<Rightarrow> 'u \<Rightarrow> json option \<Rightarrow> run \<Rightarrow> nat \<Rightarrow> world \<Rightarrow>
     (thrown + payload) \<times> fetch_call option \<times> world" where
  "try_block P m url b r timer w =
     (case body_argument P b of
        Inl e \<Rightarrow> (Inl (Raw e), None, w)
      | Inr bs \<Rightarrow>
          (let call = \<lparr>call_url = URL_toString P url, call_method = m,
                       call_headers = [(''Content-Type'', ''application/json''),
                                       (''Accept'', ''application/json'')],
                       call_body = bs\<rparr>
           in case await (fetch_promise r) (during_fetch r) timer w of
                (Inl e, w') \<Rightarrow> (Inl (Raw e), Some call, w')
              | (Inr response, w') \<Rightarrow>
                  (case on_response response r timer w' of
                     (res, w'') \<Rightarrow> (res, Some call, w''))))"

text \<open>The \<open>catch\<close> block: what is thrown on, given what was caught.\<close>

definition catch_block :: "world \<Rightarrow> thrown \<Rightarrow> thrown" where
  "catch_block w error =
     (case error of
        Api a \<Rightarrow> Api a
      | Raw e \<Rightarrow>
          if is_abort e then Api (timeout_error (timeoutMs (current_config w)))
          else Api (network_error e))"

text \<open>
  What a call leaves behind: what it returned or threw, the call of \<open>fetch\<close> it made,
  the timer it started (its handle and its delay), and the world when it is over.
\<close>

record call_result =
  outcome :: "thrown + payload"
  dispatched :: "fetch_call option"
  timer_started :: "(nat \<times> int) option"
  final :: world

definition apiRequest :: "'u platform \<Rightarrow> RequestOptions \<Rightarrow> run \<Rightarrow> world \<Rightarrow> call_result" where
  "apiRequest P opts r w =
     (let m = (case req_method opts of None \<Rightarrow> GET | Some m \<Rightarrow> m)
      in case new_URL P (path opts) (baseUrl (current_config w)) of
           Inl e \<Rightarrow> \<lparr>outcome = Inl (Raw e), dispatched = None, timer_started = None, final = w\<rparr>
         | Inr u \<Rightarrow>
             (let url = (case params opts of
                           None \<Rightarrow> u
                         | Some entries \<Rightarrow>
                             fold (\<lambda>(k, v) url. searchParams_set P url k v) entries u);
                  delay = timeoutMs (current_config w);
                  (timer, w1) = setTimeout delay w;
                  (res, call, w2) = try_block P m url (body opts) r timer w1;
                  res' = (case res of Inl error \<Rightarrow> Inl (catch_block w2 error) | Inr v \<Rightarrow> Inr v);
                  w3 = clearTimeout timer w2
              in \<lparr>outcome = res', dispatched = call, timer_started = Some (timer, delay),
                  final = w3\<rparr>))"

subsection \<open>Notions used in the statements\<close>

text \<open>
  The configuration after a sequence of \<open>setConfig\<close> calls, as a function of the
  configuration before them.
\<close>

definition overridden :: "ServerConfig \<Rightarrow> PartialServerConfig list \<Rightarrow> ServerConfig" where
  "overridden c ovs = fold (\<lambda>ov c. spread c ov) ovs c"

text \<open>
  The response's \<open>content-type\<close> header is there and contains \<open>application/json\<close>.
\<close>

definition json_content :: "Response \<Rightarrow> bool" where
  "json_content response =
     (case content_type response of
        None \<Rightarrow> False
      | Some c \<Rightarrow> str_includes c ''application/json'')"

text \<open>The same run with no \<open>setConfig\<close> call by anyone while the call is suspended.\<close>

definition undisturbed :: "run \<Rightarrow> run" where
  "undisturbed r = r\<lparr>during_fetch := [], during_body := []\<rparr>"

text \<open>
  The error with which an awaited promise makes the call resume, if it does: the error
  of the transport, or the abort error when the timer of the call fires first.
\<close>

fun rejection :: "'a settled \<Rightarrow> platform_error option" where
  "rejection (Fulfilled x) = None"
| "rejection (Rejected e) = Some e"
| "rejection TimerFirst = Some abort_error"

text \<open>
  The same for the body of a response: \<open>json()\<close> is awaited for a 2xx response with a
  JSON content type, \<open>text()\<close> for every other response.
\<close>

definition body_rejection :: "Response \<Rightarrow> platform_error option" where
  "body_rejection response =
     (if ok response \<and> json_content response then rejection (json_promise response)
      else rejection (text_promise response))"

text \<open>
  The error of the platform that reaches the \<open>catch\<close> block, if one does: thrown by
  \<open>JSON.stringify\<close>, by the awaited \<open>fetch\<close>, or by the awaited body.
\<close>

definition raised_in_try :: "'u platform \<Rightarrow> json option \<Rightarrow> run \<Rightarrow> platform_error option" where
  "raised_in_try P b r =
     (case body_argument P b of
        Inl e \<Rightarrow> Some e
      | Inr bs \<Rightarrow>
          (case fetch_promise r of
             Fulfilled response \<Rightarrow> body_rejection response
           | Rejected e \<Rightarrow> Some e
           | TimerFirst \<Rightarrow> Some abort_error))"

text \<open>
  The \<open>setConfig\<close> calls of other tasks that have happened when the \<open>try\<close> block is
  left: none when \<open>JSON.stringify\<close> throws, those made while \<open>fetch\<close> was awaited when no
  response arrives, and those made while the body was awaited as well when one does.
\<close>

definition overrides_seen :: "'u platform \<Rightarrow> json option \<Rightarrow> run \<Rightarrow> PartialServerConfig list" where
  "overrides_seen P b r =
     (case body_argument P b of
        Inl e \<Rightarrow> []
      | Inr bs \<Rightarrow>
          (case fetch_promise r of
             Fulfilled response \<Rightarrow> during_fetch r @ during_body r
           | Rejected e \<Rightarrow> during_fetch r
           | TimerFirst \<Rightarrow> during_fetch r))"

text \<open>The call ends in an abort: the URL is built and the error caught is the abort.\<close>

definition ends_in_abort :: "'u platform \<Rightarrow> RequestOptions \<Rightarrow> run \<Rightarrow> world \<Rightarrow> bool" where
  "ends_in_abort P opts r w =
     (case new_URL P (path opts) (baseUrl (current_config w)) of
        Inl e \<Rightarrow> False
      | Inr u \<Rightarrow>
          (case raised_in_try P (body opts) r of None \<Rightarrow> False | Some e \<Rightarrow> is_abort e))"

text \<open>
  Nothing fails in a call whose URL is built: the body is serialised (or there is none
  to serialise), \<open>fetch\<close> delivers a response, its status is 2xx, and its body is read.
  A call of which this is not true is a failing call.
\<close>

definition succeeds :: "'u platform \<Rightarrow> RequestOptions \<Rightarrow> run \<Rightarrow> bool" where
  "succeeds P opts r =
     (case body_argument P (body opts) of
        Inl e \<Rightarrow> False
      | Inr bs \<Rightarrow>
          (case fetch_promise r of
             Fulfilled response \<Rightarrow> ok response \<and> body_rejection response = None
           | Rejected e \<Rightarrow> False
           | TimerFirst \<Rightarrow> False))"

subsection \<open>A platform for worked examples\<close>

text \<open>
  The examples below need the platform functions at a few inputs. On those inputs
  \<open>sample_platform\<close> does what Node does: a path that starts with one slash is resolved
  against a base without a path by appending it; an input with a special scheme or two
  slashes and nothing after them has no host and is rejected by the URL constructor with
  a \<open>TypeError\<close>; a query parameter not yet in the URL, made of unreserved characters, is
  appended; values made of \<open>null\<close>, booleans, integers, strings without control
  characters, arrays and objects are serialised without white space.
\<close>

fun join_commas :: "string list \<Rightarrow> string" where
  "join_commas [] = []"
| "join_commas [x] = x"
| "join_commas (x # y # ys) = x @ '','' @ join_commas (y # ys)"

definition quote :: "string \<Rightarrow> string" where
  "quote s =
     [CHR 0x22] @
     concat (map (\<lambda>c. if c = CHR 0x22 \<or> c = CHR 0x5C then [CHR 0x5C, c] else [c]) s) @
     [CHR 0x22]"

fun stringify :: "json \<Rightarrow> string" where
  "stringify JNull = ''null''"
| "stringify (JBool b) = (if b then ''true'' else ''false'')"
| "stringify (JNum n) = Number_toString n"
| "stringify (JStr s) = quote s"
| "stringify (JArr xs) = ''['' @ join_commas (map stringify xs) @ '']''"
| "stringify (JObj kvs) =
     ''{'' @ join_commas (map (\<lambda>(k, v). quote k @ '':'' @ stringify v) kvs) @ ''}''"

definition sample_platform :: "string platform" where
  "sample_platform =
     \<lparr>new_URL = (\<lambda>path base.
         if path \<in> set [''http://'', ''https://'', ''//'']
         then Inl (ErrorObject ''TypeError'' ''Invalid URL'')
         else Inr (base @ path)),
      searchParams_set = (\<lambda>url k v.
         url @ (if CHR ''?'' \<in> set url then ''&'' else ''?'') @ k @ ''='' @ v),
      URL_toString = (\<lambda>url. url),
      JSON_stringify = (\<lambda>v. Inr (stringify v))\<rparr>"

text \<open>The request of the \<open>health_check\<close> tool: \<open>apiRequest({ path: "/health" })\<close>.\<close>

definition health :: RequestOptions where
  "health = \<lparr>req_method = None, path = ''/health'', params = None, body = None\<rparr>"

subsection \<open>Facts about the store\<close>

lemma well_formed_initial: "well_formed (initial_world env_base)"
  by (simp add: well_formed_def initial_world_def new_object_def Let_def)

lemma well_formed_setConfig: "well_formed (setConfig ov w)"
  by (simp add: well_formed_def setConfig_def new_object_def Let_def)

lemma current_config_setConfig:
  "current_config (setConfig ov w) = spread (current_config w) ov"
  by (simp add: setConfig_def new_object_def current_config_def deref_def Let_def)

lemma getConfig_fresh:
  "well_formed w \<Longrightarrow> fst (getConfig w) \<noteq> config (snd (getConfig w))"
  by (simp add: well_formed_def getConfig_def new_object_def)

lemma current_config_fold_setConfig:
  "current_config (fold setConfig ovs w) = overridden (current_config w) ovs"
  unfolding overridden_def
  by (induction ovs arbitrary: w) (simp_all add: current_config_setConfig)

lemma timers_setConfig: "timers (setConfig ov w) = timers w"
  by (simp add: setConfig_def new_object_def Let_def)

lemma timers_fold_setConfig: "timers (fold setConfig ovs w) = timers w"
  by (induction ovs arbitrary: w) (simp_all add: timers_setConfig)

lemma current_config_timers_update:
  "current_config (w\<lparr>timers := ts\<rparr>) = current_config w"
  by (simp add: current_config_def deref_def)

lemma current_config_setTimeout: "current_config (snd (setTimeout d w)) = current_config w"
  by (simp add: setTimeout_def current_config_def deref_def)

lemma fst_await:
  "fst (await p ovs t w) =
     (case p of Fulfilled x \<Rightarrow> Inr x | Rejected e \<Rightarrow> Inl e | TimerFirst \<Rightarrow> Inl abort_error)"
  by (simp add: await_def Let_def split: settled.split)

lemma current_config_await:
  "current_config (snd (await p ovs t w)) = overridden (current_config w) ovs"
  by (simp add: await_def Let_def timer_fires_def current_config_timers_update
      current_config_fold_setConfig split: settled.split)

lemma timers_await:
  "timers (snd (await p ovs t w)) =
     (case p of TimerFirst \<Rightarrow> filter (\<lambda>(i, d). i \<noteq> t) (timers w) | _ \<Rightarrow> timers w)"
  by (simp add: await_def Let_def timer_fires_def timers_fold_setConfig split: settled.split)

lemma current_config_initial [simp]:
  "current_config (initial_world env) = DEFAULT_CONFIG env"
  by (simp add: initial_world_def new_object_def current_config_def deref_def Let_def)

lemma sublist_suffix_of: "sublist xs (ps @ xs)"
  using sublist_appendI [of xs ps "[]"] by simp

lemma sublist_middle_of: "sublist xs (ps @ xs @ ss)"
  by (rule sublist_appendI)

lemma message_payment_required:
  "message (payment_required_error text) =
     ''Payment required (HTTP 402). This is a paid endpoint that requires x402 payment. Your agent framework must handle the 402 response and provide payment. Details: '' @ text"
  by (simp add: payment_required_error_def)

lemma payment_required_contains: "sublist text (message (payment_required_error text))"
  unfolding message_payment_required by (rule sublist_suffix_of)

lemma http_error_contains_text: "sublist text (message (http_error st text))"
proof -
  have "message (http_error st text) =
          (''API request failed with status '' @ Number_toString st @ '': '') @ text"
    by (simp add: http_error_def)
  then show ?thesis by (simp only: sublist_suffix_of)
qed

lemma http_error_contains_status:
  "sublist (Number_toString st) (message (http_error st text))"
proof -
  have "message (http_error st text) =
          ''API request failed with status '' @ Number_toString st @ ('': '' @ text)"
    by (simp add: http_error_def)
  then show ?thesis by (simp only: sublist_middle_of)
qed

text \<open>The four kinds exclude one another: a failure has one kind.\<close>

lemma kind_unique:
  assumes "failure_of_kind k a" and "failure_of_kind k' a"
  shows "k = k'"
  using assms
  by (auto simp add: failure_of_kind.simps payment_required_error_def http_error_def
      timeout_error_def network_error_def)

lemma getConfig_unfold:
  "getConfig w =
     (next_ref w, w\<lparr>heap := (heap w)(next_ref w \<mapsto> current_config w), next_ref := Suc (next_ref w)\<rparr>)"
  by (simp add: getConfig_def new_object_def)

subsection \<open>Facts about the call\<close>

lemma fst_on_response:
  "fst (on_response response r t w) =
     (if status response = 402 then
        (case text_promise response of
           Fulfilled text \<Rightarrow> Inl (Api (payment_required_error text))
         | Rejected e \<Rightarrow> Inl (Raw e)
         | TimerFirst \<Rightarrow> Inl (Raw abort_error))
      else if \<not> ok response then
        (case text_promise response of
           Fulfilled text \<Rightarrow> Inl (Api (http_error (status response) text))
         | Rejected e \<Rightarrow> Inl (Raw e)
         | TimerFirst \<Rightarrow> Inl (Raw abort_error))
      else if str_includes (case content_type response of None \<Rightarrow> [] | Some c \<Rightarrow> c)
                ''application/json'' then
        (case json_promise response of
           Fulfilled v \<Rightarrow> Inr (Parsed v)
         | Rejected e \<Rightarrow> Inl (Raw e)
         | TimerFirst \<Rightarrow> Inl (Raw abort_error))
      else
        (case text_promise response of
           Fulfilled text \<Rightarrow> Inr (Text text)
         | Rejected e \<Rightarrow> Inl (Raw e)
         | TimerFirst \<Rightarrow> Inl (Raw abort_error)))"
proof -
  have ct: "(case content_type response of None \<Rightarrow> [] | Some c \<Rightarrow> if c = [] then [] else c)
              = (case content_type response of None \<Rightarrow> [] | Some c \<Rightarrow> c)"
    by (simp split: option.split)
  show ?thesis
    unfolding on_response_def Let_def ct
    by (simp add: await_def Let_def split: settled.split)
qed

lemma current_config_await_case:
  "current_config (snd (case await p ovs t w of
                          (Inl e, w') \<Rightarrow> (f e, w') | (Inr x, w') \<Rightarrow> (g x, w')))
     = overridden (current_config w) ovs"
  using current_config_await [of p ovs t w]
  by (auto split: prod.split sum.split)

lemma current_config_on_response:
  "current_config (snd (on_response response r t w)) =
     overridden (current_config w) (during_body r)"
  unfolding on_response_def Let_def by (simp add: current_config_await_case)

lemma filter_timers_await:
  "filter (\<lambda>(i, d). i \<noteq> t) (timers (snd (await p ovs t w))) =
     filter (\<lambda>(i, d). i \<noteq> t) (timers w)"
  by (simp add: timers_await split: settled.split)

lemma filter_timers_await_case:
  "filter (\<lambda>(i, d). i \<noteq> t)
     (timers (snd (case await p ovs t w of
                     (Inl e, w') \<Rightarrow> (f e, w') | (Inr x, w') \<Rightarrow> (g x, w'))))
     = filter (\<lambda>(i, d). i \<noteq> t) (timers w)"
  using filter_timers_await [of t p ovs w]
  by (auto split: prod.split sum.split)

lemma filter_timers_on_response:
  "filter (\<lambda>(i, d). i \<noteq> t) (timers (snd (on_response response r t w))) =
     filter (\<lambda>(i, d). i \<noteq> t) (timers w)"
  unfolding on_response_def Let_def by (simp add: filter_timers_await_case)

text \<open>The try block, component by component.\<close>

lemma fst_try_block:
  "fst (try_block P m url b r t w) =
     (case body_argument P b of
        Inl e \<Rightarrow> Inl (Raw e)
      | Inr bs \<Rightarrow>
          (case fetch_promise r of
             Fulfilled response \<Rightarrow>
               fst (on_response response r t (snd (await (fetch_promise r) (during_fetch r) t w)))
           | Rejected e \<Rightarrow> Inl (Raw e)
           | TimerFirst \<Rightarrow> Inl (Raw abort_error)))"
  by (simp add: try_block_def Let_def await_def split: sum.split settled.split prod.split)

lemma call_try_block:
  "fst (snd (try_block P m url b r t w)) =
     (case body_argument P b of
        Inl e \<Rightarrow> None
      | Inr bs \<Rightarrow>
          Some \<lparr>call_url = URL_toString P url, call_method = m,
                call_headers = [(''Content-Type'', ''application/json''),
                                (''Accept'', ''application/json'')],
                call_body = bs\<rparr>)"
  by (simp add: try_block_def Let_def split: sum.split prod.split)

lemma filter_timers_try_block:
  "filter (\<lambda>(i, d). i \<noteq> t) (timers (snd (snd (try_block P m url b r t w)))) =
     filter (\<lambda>(i, d). i \<noteq> t) (timers w)"
proof (cases "body_argument P b")
  case (Inl e)
  then show ?thesis by (simp add: try_block_def)
next
  case (Inr bs)
  obtain x w' where aw: "await (fetch_promise r) (during_fetch r) t w = (x, w')"
    by (cases "await (fetch_promise r) (during_fetch r) t w")
  have w': "filter (\<lambda>(i, d). i \<noteq> t) (timers w') = filter (\<lambda>(i, d). i \<noteq> t) (timers w)"
    using filter_timers_await [of t "fetch_promise r" "during_fetch r" w] aw by simp
  show ?thesis
  proof (cases x)
    case (Inl e)
    with Inr aw w' show ?thesis by (simp add: try_block_def)
  next
    case (Inr response)
    with \<open>body_argument P b = Inr bs\<close> aw w'
      filter_timers_on_response [of t response r w']
    show ?thesis by (simp add: try_block_def case_prod_beta)
  qed
qed

lemma current_config_try_block:
  "during_fetch r = [] \<Longrightarrow> during_body r = [] \<Longrightarrow>
     current_config (snd (snd (try_block P m url b r t w))) = current_config w"
proof (cases "body_argument P b")
  case (Inl e)
  then show ?thesis by (simp add: try_block_def)
next
  case (Inr bs)
  assume nil: "during_fetch r = []" "during_body r = []"
  obtain x w' where aw: "await (fetch_promise r) (during_fetch r) t w = (x, w')"
    by (cases "await (fetch_promise r) (during_fetch r) t w")
  have w': "current_config w' = current_config w"
    using current_config_await [of "fetch_promise r" "during_fetch r" t w] aw nil
    by (simp add: overridden_def)
  show ?thesis
  proof (cases x)
    case (Inl e)
    with Inr aw w' show ?thesis by (simp add: try_block_def)
  next
    case (Inr response)
    with \<open>body_argument P b = Inr bs\<close> aw w' nil
      current_config_on_response [of response r t w']
    show ?thesis by (simp add: try_block_def case_prod_beta overridden_def)
  qed
qed

text \<open>The call, component by component, once the URL is built.\<close>

lemma apiRequest_url_ok:
  assumes "new_URL P (path opts) (baseUrl (current_config w)) = Inr u"
  defines "m \<equiv> (case req_method opts of None \<Rightarrow> GET | Some m \<Rightarrow> m)"
    and "url \<equiv> (case params opts of
                    None \<Rightarrow> u
                  | Some entries \<Rightarrow> fold (\<lambda>(k, v) url. searchParams_set P url k v) entries u)"
    and "t \<equiv> fst (setTimeout (timeoutMs (current_config w)) w)"
    and "w1 \<equiv> snd (setTimeout (timeoutMs (current_config w)) w)"
  shows "outcome (apiRequest P opts r w) =
           (case fst (try_block P m url (body opts) r t w1) of
              Inl error \<Rightarrow>
                Inl (catch_block (snd (snd (try_block P m url (body opts) r t w1))) error)
            | Inr v \<Rightarrow> Inr v)"
    and "dispatched (apiRequest P opts r w) = fst (snd (try_block P m url (body opts) r t w1))"
    and "timer_started (apiRequest P opts r w) = Some (t, timeoutMs (current_config w))"
    and "final (apiRequest P opts r w) =
           clearTimeout t (snd (snd (try_block P m url (body opts) r t w1)))"
  using assms(1) unfolding m_def url_def t_def w1_def
  by (simp_all add: apiRequest_def Let_def case_prod_beta)

lemma apiRequest_url_fails:
  assumes "new_URL P (path opts) (baseUrl (current_config w)) = Inl e"
  shows "apiRequest P opts r w =
           \<lparr>outcome = Inl (Raw e), dispatched = None, timer_started = None, final = w\<rparr>"
  using assms by (simp add: apiRequest_def)

lemma json_content_iff:
  "str_includes (case content_type response of None \<Rightarrow> [] | Some c \<Rightarrow> c) ''application/json''
     = json_content response"
  by (simp add: json_content_def str_includes_def split: option.split)

lemma ok_not_402: "ok response \<Longrightarrow> status response \<noteq> 402"
  by (simp add: ok_def)

lemma outcome_ok_response:
  assumes "new_URL P (path opts) (baseUrl (current_config w)) = Inr u"
    and "body_argument P (body opts) = Inr bs"
    and "fetch_promise r = Fulfilled response"
    and "ok response"
  shows "outcome (apiRequest P opts r w) =
     (if json_content response then
        (case json_promise response of
           Fulfilled v \<Rightarrow> Inr (Parsed v)
         | Rejected e \<Rightarrow> Inl (catch_block
             (snd (snd (try_block P (case req_method opts of None \<Rightarrow> GET | Some m \<Rightarrow> m)
                (case params opts of None \<Rightarrow> u
                 | Some entries \<Rightarrow> fold (\<lambda>(k, v) url. searchParams_set P url k v) entries u)
                (body opts) r (fst (setTimeout (timeoutMs (current_config w)) w))
                (snd (setTimeout (timeoutMs (current_config w)) w))))) (Raw e))
         | TimerFirst \<Rightarrow> Inl (catch_block
             (snd (snd (try_block P (case req_method opts of None \<Rightarrow> GET | Some m \<Rightarrow> m)
                (case params opts of None \<Rightarrow> u
                 | Some entries \<Rightarrow> fold (\<lambda>(k, v) url. searchParams_set P url k v) entries u)
                (body opts) r (fst (setTimeout (timeoutMs (current_config w)) w))
                (snd (setTimeout (timeoutMs (current_config w)) w))))) (Raw abort_error)))
      else
        (case text_promise response of
           Fulfilled text \<Rightarrow> Inr (Text text)
         | Rejected e \<Rightarrow> Inl (catch_block
             (snd (snd (try_block P (case req_method opts of None \<Rightarrow> GET | Some m \<Rightarrow> m)
                (case params opts of None \<Rightarrow> u
                 | Some entries \<Rightarrow> fold (\<lambda>(k, v) url. searchParams_set P url k v) entries u)
                (body opts) r (fst (setTimeout (timeoutMs (current_config w)) w))
                (snd (setTimeout (timeoutMs (current_config w)) w))))) (Raw e))
         | TimerFirst \<Rightarrow> Inl (catch_block
             (snd (snd (try_block P (case req_method opts of None \<Rightarrow> GET | Some m \<Rightarrow> m)
                (case params opts of None \<Rightarrow> u
                 | Some entries \<Rightarrow> fold (\<lambda>(k, v) url. searchParams_set P url k v) entries u)
                (body opts) r (fst (setTimeout (timeoutMs (current_config w)) w))
                (snd (setTimeout (timeoutMs (current_config w)) w))))) (Raw abort_error))))"
  using assms(2-4) ok_not_402 [OF assms(4)]
  by (simp add: apiRequest_url_ok(1) [OF assms(1)] fst_try_block fst_on_response
      json_content_iff split: settled.split)

lemma try_block_Api:
  assumes "fst (try_block P m url b r t w) = Inl (Api a)"
  shows "(\<exists>s. a = payment_required_error s) \<or> (\<exists>st s. a = http_error st s)"
  using assms
  by (auto simp add: fst_try_block fst_on_response
      split: sum.splits settled.splits if_splits)

lemma fst_try_block_undisturbed:
  "fst (try_block P m url b (undisturbed r) t w) = fst (try_block P m url b r t w)"
  by (simp add: fst_try_block fst_on_response undisturbed_def split: sum.split settled.split)

lemma call_try_block_undisturbed:
  "fst (snd (try_block P m url b (undisturbed r) t w)) = fst (snd (try_block P m url b r t w))"
  by (simp add: call_try_block)

text \<open>The module variable refers to an allocated object in every world a program reaches.\<close>

lemma well_formed_timers_update: "well_formed (w\<lparr>timers := ts\<rparr>) = well_formed w"
  by (simp add: well_formed_def)

lemma well_formed_getConfig: "well_formed w \<Longrightarrow> well_formed (snd (getConfig w))"
  by (simp add: well_formed_def getConfig_unfold)

lemma well_formed_mutate: "well_formed (mutate r f w) = well_formed w"
  by (simp add: well_formed_def mutate_def)

lemma well_formed_fold_setConfig:
  "well_formed w \<Longrightarrow> well_formed (fold setConfig ovs w)"
  by (induction ovs arbitrary: w) (simp_all add: well_formed_setConfig)

lemma well_formed_await: "well_formed w \<Longrightarrow> well_formed (snd (await p ovs t w))"
  by (simp add: await_def Let_def timer_fires_def well_formed_timers_update
      well_formed_fold_setConfig split: settled.split)

lemma well_formed_await_case:
  "well_formed w \<Longrightarrow>
     well_formed (snd (case await p ovs t w of
                         (Inl e, w') \<Rightarrow> (f e, w') | (Inr x, w') \<Rightarrow> (g x, w')))"
  using well_formed_await [of w p ovs t]
  by (auto split: prod.split sum.split)

lemma well_formed_on_response:
  "well_formed w \<Longrightarrow> well_formed (snd (on_response response r t w))"
  unfolding on_response_def Let_def by (simp add: well_formed_await_case)

lemma well_formed_try_block:
  assumes "well_formed w"
  shows "well_formed (snd (snd (try_block P m url b r t w)))"
proof (cases "body_argument P b")
  case (Inl e)
  with assms show ?thesis by (simp add: try_block_def)
next
  case (Inr bs)
  obtain x w' where aw: "await (fetch_promise r) (during_fetch r) t w = (x, w')"
    by (cases "await (fetch_promise r) (during_fetch r) t w")
  have w': "well_formed w'"
    using well_formed_await [OF assms, of "fetch_promise r" "during_fetch r" t] aw by simp
  show ?thesis
  proof (cases x)
    case (Inl e)
    with Inr aw w' show ?thesis by (simp add: try_block_def)
  next
    case (Inr response)
    with \<open>body_argument P b = Inr bs\<close> aw well_formed_on_response [OF w', of response r t]
    show ?thesis by (simp add: try_block_def case_prod_beta)
  qed
qed

lemma well_formed_final:
  assumes "well_formed w"
  shows "well_formed (final (apiRequest P opts r w))"
proof (cases "new_URL P (path opts) (baseUrl (current_config w))")
  case (Inl e)
  with assms show ?thesis by (simp add: apiRequest_url_fails)
next
  case (Inr u)
  have "well_formed (snd (setTimeout (timeoutMs (current_config w)) w))"
    using assms by (simp add: setTimeout_def well_formed_def)
  then show ?thesis
    by (simp add: apiRequest_url_ok(4) [OF Inr] clearTimeout_def well_formed_timers_update
        well_formed_try_block)
qed

lemma overridden_append: "overridden c (xs @ ys) = overridden (overridden c xs) ys"
  by (simp add: overridden_def)

lemma fst_on_response_Raw:
  "(fst (on_response response r t w) = Inl (Raw e)) = (body_rejection response = Some e)"
proof (cases "ok response")
  case True
  then have "status response \<noteq> 402" by (rule ok_not_402)
  with True show ?thesis
    by (cases "json_promise response"; cases "text_promise response")
       (auto simp add: fst_on_response body_rejection_def json_content_iff)
next
  case False
  then show ?thesis
    by (cases "text_promise response") (auto simp add: fst_on_response body_rejection_def)
qed

lemma fst_on_response_value:
  "(\<exists>v. fst (on_response response r t w) = Inr v) =
     (ok response \<and> body_rejection response = None)"
proof (cases "ok response")
  case True
  then have "status response \<noteq> 402" by (rule ok_not_402)
  with True show ?thesis
    by (cases "json_promise response"; cases "text_promise response")
       (auto simp add: fst_on_response body_rejection_def json_content_iff)
next
  case False
  then show ?thesis
    by (cases "text_promise response") (auto simp add: fst_on_response)
qed

lemma fst_try_block_Raw:
  "(fst (try_block P m url b r t w) = Inl (Raw e)) = (raised_in_try P b r = Some e)"
  by (cases "body_argument P b"; cases "fetch_promise r")
     (auto simp add: fst_try_block raised_in_try_def fst_on_response_Raw)

lemma fst_try_block_value:
  "(\<exists>v. fst (try_block P m url (body opts) r t w) = Inr v) = succeeds P opts r"
  by (cases "body_argument P (body opts)"; cases "fetch_promise r")
     (auto simp add: fst_try_block succeeds_def fst_on_response_value)

lemma current_config_after_try:
  "current_config (snd (snd (try_block P m url b r t w))) =
     overridden (current_config w) (overrides_seen P b r)"
proof (cases "body_argument P b")
  case (Inl e)
  then show ?thesis by (simp add: try_block_def overrides_seen_def overridden_def)
next
  case (Inr bs)
  obtain x w' where aw: "await (fetch_promise r) (during_fetch r) t w = (x, w')"
    by (cases "await (fetch_promise r) (during_fetch r) t w")
  have w': "current_config w' = overridden (current_config w) (during_fetch r)"
    using current_config_await [of "fetch_promise r" "during_fetch r" t w] aw by simp
  have x: "x = (case fetch_promise r of Fulfilled y \<Rightarrow> Inr y | Rejected e \<Rightarrow> Inl e
                | TimerFirst \<Rightarrow> Inl abort_error)"
    using fst_await [of "fetch_promise r" "during_fetch r" t w] aw by simp
  show ?thesis
  proof (cases "fetch_promise r")
    case (Fulfilled response)
    with x have "x = Inr response" by simp
    with Inr aw w' Fulfilled current_config_on_response [of response r t w']
    show ?thesis
      by (simp add: try_block_def case_prod_beta overrides_seen_def overridden_append)
  next
    case (Rejected e)
    with x have "x = Inl e" by simp
    with Inr aw w' Rejected show ?thesis
      by (simp add: try_block_def overrides_seen_def)
  next
    case TimerFirst
    with x have "x = Inl abort_error" by simp
    with Inr aw w' TimerFirst show ?thesis
      by (simp add: try_block_def overrides_seen_def)
  qed
qed

lemma raised_in_try_undisturbed:
  "raised_in_try P b (undisturbed r) = raised_in_try P b r"
  by (simp add: raised_in_try_def undisturbed_def split: sum.split)

lemma overrides_seen_undisturbed: "overrides_seen P b (undisturbed r) = []"
  by (simp add: overrides_seen_def undisturbed_def split: sum.split settled.split)

lemmas sample_eval =
  sample_platform_def health_def DEFAULT_CONFIG_def body_argument_def ok_def
  json_content_def str_includes_def sublist_Cons_right current_config_setConfig spread_def
  overridden_def Number_toString_def string_of_nat.simps digit_char_def
  timeout_error_def network_error_def payment_required_error_def http_error_def

subsection \<open>Responses with a status outside 200..299\<close>

text \<open>
  Claim C1. A request was executed (the URL was built and the arguments of \<open>fetch\<close>
  were evaluated), \<open>fetch\<close> delivered a response whose status is not 2xx, and the body
  of the response was read as \<open>text\<close>. If the status is 402, the call throws the
  PaymentRequired failure: its message ends with the body text and its \<open>statusCode\<close>
  is 402, whatever the HTTP method. For any other status the call throws the HttpError
  failure: its message contains the status in decimal and the body text, and its
  \<open>statusCode\<close> is that status.
\<close>

theorem non_2xx_response_classified:
  assumes "new_URL P (path opts) (baseUrl (current_config w)) = Inr u"
    and "body_argument P (body opts) = Inr bs"
    and "fetch_promise r = Fulfilled response"
    and "\<not> ok response"
    and "text_promise response = Fulfilled text"
  shows "(status response = 402 \<longrightarrow>
           outcome (apiRequest P opts r w) = Inl (Api (payment_required_error text)) \<and>
           failure_of_kind PaymentRequired (payment_required_error text) \<and>
           statusCode (payment_required_error text) = 402 \<and>
           sublist text (message (payment_required_error text))) \<and>
         (status response \<noteq> 402 \<longrightarrow>
           outcome (apiRequest P opts r w) = Inl (Api (http_error (status response) text)) \<and>
           failure_of_kind HttpError (http_error (status response) text) \<and>
           statusCode (http_error (status response) text) = status response \<and>
           sublist (Number_toString (status response))
             (message (http_error (status response) text)) \<and>
           sublist text (message (http_error (status response) text)))"
proof -
  have pay: "outcome (apiRequest P opts r w) = Inl (Api (payment_required_error text))"
    if "status response = 402"
    using assms that
    by (simp add: apiRequest_def try_block_def on_response_def await_def catch_block_def
        Let_def split: prod.split)
  have other: "outcome (apiRequest P opts r w) = Inl (Api (http_error (status response) text))"
    if "status response \<noteq> 402"
    using assms that
    by (simp add: apiRequest_def try_block_def on_response_def await_def catch_block_def
        Let_def split: prod.split)
  have "statusCode (payment_required_error text) = 402"
    by (simp add: payment_required_error_def)
  moreover have "statusCode (http_error (status response) text) = status response"
    by (simp add: http_error_def)
  ultimately show ?thesis
    using pay other payment_required_contains http_error_contains_text
      http_error_contains_status failure_of_kind.intros(1,2)
    by blast
qed

theorem non_2xx_response_classified_witness:
  "outcome (apiRequest sample_platform (health\<lparr>req_method := Some POST\<rparr>)
      \<lparr>fetch_promise = Fulfilled
          \<lparr>status = 402, content_type = Some ''application/json'',
           text_promise = Fulfilled ''pay 0.10 USDC'', json_promise = TimerFirst\<rparr>,
        during_fetch = [], during_body = []\<rparr>
      (initial_world None))
   = Inl (Api \<lparr>message =
        ''Payment required (HTTP 402). This is a paid endpoint that requires x402 payment. Your agent framework must handle the 402 response and provide payment. Details: pay 0.10 USDC'',
        statusCode = 402\<rparr>)"
  using non_2xx_response_classified [of sample_platform "health\<lparr>req_method := Some POST\<rparr>" "initial_world None"
      "''https://djd-agent-score.fly.dev/health''" None
      "\<lparr>fetch_promise = Fulfilled
          \<lparr>status = 402, content_type = Some ''application/json'',
           text_promise = Fulfilled ''pay 0.10 USDC'', json_promise = TimerFirst\<rparr>,
        during_fetch = [], during_body = []\<rparr>"
      "\<lparr>status = 402, content_type = Some ''application/json'',
           text_promise = Fulfilled ''pay 0.10 USDC'', json_promise = TimerFirst\<rparr>"
      "''pay 0.10 USDC''"]
  by (simp add: sample_platform_def health_def DEFAULT_CONFIG_def body_argument_def ok_def
      payment_required_error_def)

subsection \<open>Exceptions of the transport\<close>



subsection \<open>Responses with a status in 200..299\<close>

text \<open>
  Claim C3. A request was executed and \<open>fetch\<close> delivered a 2xx response. If its
  \<open>content-type\<close> header contains \<open>application/json\<close> and \<open>json()\<close> yields the value
  \<open>v\<close>, the call returns \<open>v\<close> as it is. With any other content type, or none, and the
  body read as \<open>text\<close>, the call returns that text; \<open>json()\<close> is not called, so the
  result is the same whatever \<open>json()\<close> would have done.
\<close>

theorem ok_response_payload:
  assumes "new_URL P (path opts) (baseUrl (current_config w)) = Inr u"
    and "body_argument P (body opts) = Inr bs"
    and "fetch_promise r = Fulfilled response"
    and "ok response"
  shows "(\<forall>v. json_content response \<and> json_promise response = Fulfilled v \<longrightarrow>
            outcome (apiRequest P opts r w) = Inr (Parsed v)) \<and>
         (\<forall>text. \<not> json_content response \<and> text_promise response = Fulfilled text \<longrightarrow>
            outcome (apiRequest P opts r w) = Inr (Text text) \<and>
            (\<forall>j. outcome (apiRequest P opts
                    (r\<lparr>fetch_promise := Fulfilled (response\<lparr>json_promise := j\<rparr>)\<rparr>) w)
                  = Inr (Text text)))"
proof -
  have "outcome (apiRequest P opts r' w) = Inr (Text s)"
    if "fetch_promise r' = Fulfilled response'" "ok response'" "\<not> json_content response'"
      "text_promise response' = Fulfilled s" for r' response' s
    using that by (simp add: outcome_ok_response [OF assms(1,2) that(1,2)])
  note raw = this
  have parsed: "outcome (apiRequest P opts r w) = Inr (Parsed v)"
    if "json_content response" "json_promise response = Fulfilled v" for v
    using that by (simp add: outcome_ok_response [OF assms])
  have "outcome (apiRequest P opts
          (r\<lparr>fetch_promise := Fulfilled (response\<lparr>json_promise := j\<rparr>)\<rparr>) w) = Inr (Text s)"
    if "\<not> json_content response" "text_promise response = Fulfilled s" for s j
    using that assms(4)
    by (intro raw [of _ "response\<lparr>json_promise := j\<rparr>"]) (simp_all add: ok_def json_content_def)
  with raw [OF assms(3,4)] parsed show ?thesis
    by blast
qed

theorem ok_response_payload_witness:
  "outcome (apiRequest sample_platform health
      \<lparr>fetch_promise = Fulfilled
         \<lparr>status = 200, content_type = Some ''application/json; charset=utf-8'',
          text_promise = TimerFirst,
          json_promise = Fulfilled (JObj [(''status'', JStr ''ok'')])\<rparr>,
       during_fetch = [], during_body = []\<rparr>
      (initial_world None))
   = Inr (Parsed (JObj [(''status'', JStr ''ok'')])) \<and>
   outcome (apiRequest sample_platform health
      \<lparr>fetch_promise = Fulfilled
         \<lparr>status = 200, content_type = Some ''image/svg+xml'',
          text_promise = Fulfilled ''<svg></svg>'',
          json_promise = Rejected (ErrorObject ''SyntaxError'' ''Unexpected token'')\<rparr>,
       during_fetch = [], during_body = []\<rparr>
      (initial_world None))
   = Inr (Text ''<svg></svg>'')"
  using ok_response_payload [of sample_platform health "initial_world None"
      "''https://djd-agent-score.fly.dev/health''" None
      "\<lparr>fetch_promise = Fulfilled
         \<lparr>status = 200, content_type = Some ''application/json; charset=utf-8'',
          text_promise = TimerFirst,
          json_promise = Fulfilled (JObj [(''status'', JStr ''ok'')])\<rparr>,
        during_fetch = [], during_body = []\<rparr>"
      "\<lparr>status = 200, content_type = Some ''application/json; charset=utf-8'',
        text_promise = TimerFirst,
        json_promise = Fulfilled (JObj [(''status'', JStr ''ok'')])\<rparr>"]
    ok_response_payload [of sample_platform health "initial_world None"
      "''https://djd-agent-score.fly.dev/health''" None
      "\<lparr>fetch_promise = Fulfilled
         \<lparr>status = 200, content_type = Some ''image/svg+xml'',
          text_promise = Fulfilled ''<svg></svg>'',
          json_promise = Rejected (ErrorObject ''SyntaxError'' ''Unexpected token'')\<rparr>,
        during_fetch = [], during_body = []\<rparr>"
      "\<lparr>status = 200, content_type = Some ''image/svg+xml'',
        text_promise = Fulfilled ''<svg></svg>'',
        json_promise = Rejected (ErrorObject ''SyntaxError'' ''Unexpected token'')\<rparr>"]
  by (simp add: sample_eval)

subsection \<open>Every failure is classified, once the URL is built\<close>

text \<open>
  Claim C4, amended. \<open>apiRequest\<close> is a function of the request, the run and the world:
  a call has one outcome. Whenever \<open>new URL(path, config.baseUrl)\<close> succeeds, whatever
  the request and whatever the transport does: a call in which nothing fails returns a
  value, and every failing call (serialisation throws, \<open>fetch\<close> is rejected or aborted,
  the status is not 2xx, the body cannot be read) throws an \<open>ApiError\<close> of one of the
  four kinds. No failure is swallowed and no error of the platform leaves the call
  unclassified.
\<close>

theorem failures_classified_once_url_built:
  assumes "new_URL P (path opts) (baseUrl (current_config w)) = Inr u"
  shows "(succeeds P opts r \<longrightarrow> (\<exists>v. outcome (apiRequest P opts r w) = Inr v)) \<and>
         (\<not> succeeds P opts r \<longrightarrow>
            (\<exists>k a. outcome (apiRequest P opts r w) = Inl (Api a) \<and> failure_of_kind k a))"
proof -
  let ?m = "case req_method opts of None \<Rightarrow> GET | Some m \<Rightarrow> m"
  let ?url = "case params opts of None \<Rightarrow> u
              | Some entries \<Rightarrow> fold (\<lambda>(k, v) url. searchParams_set P url k v) entries u"
  let ?t = "fst (setTimeout (timeoutMs (current_config w)) w)"
  let ?w1 = "snd (setTimeout (timeoutMs (current_config w)) w)"
  let ?res = "fst (try_block P ?m ?url (body opts) r ?t ?w1)"
  let ?w2 = "snd (snd (try_block P ?m ?url (body opts) r ?t ?w1))"
  have out: "outcome (apiRequest P opts r w) =
               (case ?res of Inl error \<Rightarrow> Inl (catch_block ?w2 error) | Inr v \<Rightarrow> Inr v)"
    by (rule apiRequest_url_ok(1) [OF assms])
  have val: "(\<exists>v. ?res = Inr v) = succeeds P opts r"
    by (rule fst_try_block_value)
  show ?thesis
  proof (cases ?res)
    case (Inr v)
    with out val show ?thesis by auto
  next
    case (Inl error)
    with val have fails: "\<not> succeeds P opts r" by auto
    have "\<exists>k a. outcome (apiRequest P opts r w) = Inl (Api a) \<and> failure_of_kind k a"
    proof (cases error)
      case (Api a)
      with Inl have "(\<exists>s. a = payment_required_error s) \<or> (\<exists>st s. a = http_error st s)"
        by (simp add: try_block_Api)
      then have "failure_of_kind PaymentRequired a \<or> failure_of_kind HttpError a"
        by (auto intro: failure_of_kind.intros)
      moreover from out Inl Api have "outcome (apiRequest P opts r w) = Inl (Api a)"
        by (simp add: catch_block_def)
      ultimately show ?thesis by blast
    next
      case (Raw e)
      with out Inl have "outcome (apiRequest P opts r w) =
          Inl (Api (if is_abort e then timeout_error (timeoutMs (current_config ?w2))
                    else network_error e))"
        by (simp add: catch_block_def)
      moreover have "failure_of_kind (if is_abort e then Timeout else NetworkError)
          (if is_abort e then timeout_error (timeoutMs (current_config ?w2))
           else network_error e)"
        by (simp add: failure_of_kind.intros)
      ultimately show ?thesis by blast
    qed
    with fails show ?thesis by simp
  qed
qed

theorem failures_classified_once_url_built_witness:
  "\<not> succeeds sample_platform health
      \<lparr>fetch_promise = Rejected (NonError ''boom''), during_fetch = [], during_body = []\<rparr> \<and>
   (\<exists>k a. outcome (apiRequest sample_platform health
           \<lparr>fetch_promise = Rejected (NonError ''boom''), during_fetch = [],
            during_body = []\<rparr>
           (initial_world None)) = Inl (Api a) \<and> failure_of_kind k a) \<and>
   succeeds sample_platform health
      \<lparr>fetch_promise = Fulfilled
         \<lparr>status = 200, content_type = Some ''image/svg+xml'',
          text_promise = Fulfilled ''<svg></svg>'', json_promise = TimerFirst\<rparr>,
       during_fetch = [], during_body = []\<rparr> \<and>
   (\<exists>v. outcome (apiRequest sample_platform health
           \<lparr>fetch_promise = Fulfilled
              \<lparr>status = 200, content_type = Some ''image/svg+xml'',
               text_promise = Fulfilled ''<svg></svg>'', json_promise = TimerFirst\<rparr>,
            during_fetch = [], during_body = []\<rparr>
           (initial_world None)) = Inr v)"
  using failures_classified_once_url_built [of sample_platform health "initial_world None"
      "''https://djd-agent-score.fly.dev/health''"
      "\<lparr>fetch_promise = Rejected (NonError ''boom''), during_fetch = [],
        during_body = []\<rparr>"]
    failures_classified_once_url_built [of sample_platform health "initial_world None"
      "''https://djd-agent-score.fly.dev/health''"
      "\<lparr>fetch_promise = Fulfilled
         \<lparr>status = 200, content_type = Some ''image/svg+xml'',
          text_promise = Fulfilled ''<svg></svg>'', json_promise = TimerFirst\<rparr>,
        during_fetch = [], during_body = []\<rparr>"]
  by (simp add: sample_platform_def health_def DEFAULT_CONFIG_def succeeds_def
      body_argument_def body_rejection_def ok_def json_content_def str_includes_def
      sublist_Cons_right)

text \<open>
  The claim as stated, for every request descriptor, fails: the URL is built before the
  \<open>try\<close> block, and for a path that is no URL (here \<open>http://\<close>, which has no host) the
  \<open>TypeError\<close> of the URL constructor leaves the call as it is.
\<close>

theorem failures_classified_once_url_built_counterexample:
  "outcome (apiRequest sample_platform (health\<lparr>path := ''http://''\<rparr>)
      \<lparr>fetch_promise = TimerFirst, during_fetch = [], during_body = []\<rparr>
      (initial_world None))
   = Inl (Raw (ErrorObject ''TypeError'' ''Invalid URL''))"
  by (simp add: apiRequest_def sample_platform_def health_def)

subsection \<open>The timer\<close>

text \<open>
  Claim C5. Whatever a call does (it returns, it throws one of the four failures, the
  timer fires), the timer it started is not pending when the call is over, and no timer
  is pending then that was not pending before the call.
\<close>

theorem timer_cleared_on_every_path:
  "(\<forall>t d. timer_started (apiRequest P opts r w) = Some (t, d) \<longrightarrow>
      t \<notin> pending (final (apiRequest P opts r w))) \<and>
   pending (final (apiRequest P opts r w)) \<subseteq> pending w"
proof (cases "new_URL P (path opts) (baseUrl (current_config w))")
  case (Inl e)
  then show ?thesis by (simp add: apiRequest_url_fails)
next
  case (Inr u)
  let ?m = "case req_method opts of None \<Rightarrow> GET | Some m \<Rightarrow> m"
  let ?url = "case params opts of None \<Rightarrow> u
              | Some entries \<Rightarrow> fold (\<lambda>(k, v) url. searchParams_set P url k v) entries u"
  let ?t = "fst (setTimeout (timeoutMs (current_config w)) w)"
  let ?w1 = "snd (setTimeout (timeoutMs (current_config w)) w)"
  let ?w2 = "snd (snd (try_block P ?m ?url (body opts) r ?t ?w1))"
  have started: "timer_started (apiRequest P opts r w) = Some (?t, timeoutMs (current_config w))"
    by (rule apiRequest_url_ok(3) [OF Inr])
  have "timers (final (apiRequest P opts r w)) = filter (\<lambda>(i, d). i \<noteq> ?t) (timers ?w2)"
    by (simp add: apiRequest_url_ok(4) [OF Inr] clearTimeout_def)
  also have "\<dots> = filter (\<lambda>(i, d). i \<noteq> ?t) (timers ?w1)"
    by (rule filter_timers_try_block)
  also have "\<dots> = filter (\<lambda>(i, d). i \<noteq> ?t) (timers w)"
    by (simp add: setTimeout_def)
  finally have "pending (final (apiRequest P opts r w)) = pending w - {?t}"
    by (auto simp add: pending_def)
  with started show ?thesis by auto
qed

theorem timer_cleared_on_every_path_witness:
  "timer_started (apiRequest sample_platform health
      \<lparr>fetch_promise = Rejected (NonError ''boom''), during_fetch = [], during_body = []\<rparr>
      (initial_world None)) = Some (0, 10000) \<and>
   0 \<notin> pending (final (apiRequest sample_platform health
      \<lparr>fetch_promise = Rejected (NonError ''boom''), during_fetch = [], during_body = []\<rparr>
      (initial_world None)))"
proof -
  have "timer_started (apiRequest sample_platform health
      \<lparr>fetch_promise = Rejected (NonError ''boom''), during_fetch = [], during_body = []\<rparr>
      (initial_world None)) = Some (0, 10000)"
    by (simp add: apiRequest_def sample_platform_def health_def DEFAULT_CONFIG_def
        setTimeout_def Let_def case_prod_beta initial_world_def new_object_def
        current_config_def deref_def)
  then show ?thesis
    using timer_cleared_on_every_path [of sample_platform health
      "\<lparr>fetch_promise = Rejected (NonError ''boom''), during_fetch = [], during_body = []\<rparr>"
      "initial_world None"]
    by simp
qed

subsection \<open>The arguments of fetch\<close>

text \<open>
  Claim C6, amended. The call of \<open>fetch\<close> carries the headers \<open>Content-Type:
  application/json\<close> and \<open>Accept: application/json\<close>. When \<open>body\<close> is present and
  truthy, the request body is its JSON serialisation; when \<open>body\<close> is absent, or present
  and falsy (\<open>null\<close>, \<open>false\<close>, \<open>0\<close>, the empty string), no request body is sent.
\<close>

theorem dispatched_headers_and_body:
  assumes "dispatched (apiRequest P opts r w) = Some call"
  shows "call_headers call =
           [(''Content-Type'', ''application/json''), (''Accept'', ''application/json'')] \<and>
         (\<forall>v. body opts = Some v \<and> truthy v \<longrightarrow>
            (\<exists>s. JSON_stringify P v = Inr s \<and> call_body call = Some s)) \<and>
         (\<forall>v. body opts = Some v \<and> \<not> truthy v \<longrightarrow> call_body call = None) \<and>
         (body opts = None \<longrightarrow> call_body call = None)"
proof (cases "new_URL P (path opts) (baseUrl (current_config w))")
  case (Inl e)
  with assms show ?thesis by (simp add: apiRequest_url_fails)
next
  case (Inr u)
  from assms show ?thesis
    by (auto simp add: apiRequest_url_ok(2) [OF Inr] call_try_block body_argument_def
        split: sum.splits option.splits if_splits)
qed

theorem dispatched_headers_and_body_witness:
  "map_option (\<lambda>c. (call_headers c, call_body c))
     (dispatched (apiRequest sample_platform
        \<lparr>req_method = Some POST, path = ''/v1/report'', params = None,
         body = Some (JObj [(''wallet'', JStr ''0xAB'')])\<rparr>
        \<lparr>fetch_promise = TimerFirst, during_fetch = [], during_body = []\<rparr>
        (initial_world None)))
   = Some ([(''Content-Type'', ''application/json''), (''Accept'', ''application/json'')],
           Some (stringify (JObj [(''wallet'', JStr ''0xAB'')])))"
proof -
  obtain c where c: "dispatched (apiRequest sample_platform
        \<lparr>req_method = Some POST, path = ''/v1/report'', params = None,
         body = Some (JObj [(''wallet'', JStr ''0xAB'')])\<rparr>
        \<lparr>fetch_promise = TimerFirst, during_fetch = [], during_body = []\<rparr>
        (initial_world None)) = Some c"
    by (simp add: apiRequest_def try_block_def body_argument_def sample_platform_def
        await_def Let_def setTimeout_def)
  from dispatched_headers_and_body [OF c] c show ?thesis
    by (simp add: sample_platform_def)
qed

text \<open>
  The claim as stated, for whatever serialisable value \<open>body\<close> holds, fails: the body
  \<open>false\<close> is present and serialises to \<open>false\<close>, and no request body is sent.
\<close>

theorem dispatched_headers_and_body_counterexample:
  "JSON_stringify sample_platform (JBool False) = Inr ''false'' \<and>
   map_option call_body
     (dispatched (apiRequest sample_platform
        \<lparr>req_method = Some POST, path = ''/v1/report'', params = None,
         body = Some (JBool False)\<rparr>
        \<lparr>fetch_promise = TimerFirst, during_fetch = [], during_body = []\<rparr>
        (initial_world None)))
   = Some None"
  by (simp add: apiRequest_def try_block_def body_argument_def sample_platform_def
      await_def Let_def setTimeout_def)

subsection \<open>Calls of setConfig while a request is in flight\<close>

text \<open>
  Claim C7, amended. Compare a run of a call with the same run without the \<open>setConfig\<close>
  calls made while the call is suspended. Both make the same call of \<open>fetch\<close> (the same
  URL) and start the timer with the same delay. Unless the call ends in an abort, they
  have the same outcome. When it ends in an abort, both throw a Timeout failure with
  \<open>statusCode\<close> 0: the run without \<open>setConfig\<close> calls states the timeout of the call in
  its message, and the run with them states \<open>config.timeoutMs\<close> as it is after the
  \<open>setConfig\<close> calls made before the abort is handled.
\<close>

theorem mid_call_setConfig_effect:
  "dispatched (apiRequest P opts r w) = dispatched (apiRequest P opts (undisturbed r) w) \<and>
   timer_started (apiRequest P opts r w) = timer_started (apiRequest P opts (undisturbed r) w) \<and>
   (ends_in_abort P opts r w \<longrightarrow>
      outcome (apiRequest P opts r w) =
        Inl (Api (timeout_error
          (timeoutMs (overridden (current_config w) (overrides_seen P (body opts) r))))) \<and>
      outcome (apiRequest P opts (undisturbed r) w) =
        Inl (Api (timeout_error (timeoutMs (current_config w))))) \<and>
   (\<not> ends_in_abort P opts r w \<longrightarrow>
      outcome (apiRequest P opts r w) = outcome (apiRequest P opts (undisturbed r) w))"
proof (cases "new_URL P (path opts) (baseUrl (current_config w))")
  case (Inl e)
  then show ?thesis by (simp add: apiRequest_url_fails ends_in_abort_def)
next
  case (Inr u)
  let ?m = "case req_method opts of None \<Rightarrow> GET | Some m \<Rightarrow> m"
  let ?url = "case params opts of None \<Rightarrow> u
              | Some entries \<Rightarrow> fold (\<lambda>(k, v) url. searchParams_set P url k v) entries u"
  let ?t = "fst (setTimeout (timeoutMs (current_config w)) w)"
  let ?w1 = "snd (setTimeout (timeoutMs (current_config w)) w)"
  let ?res = "fst (try_block P ?m ?url (body opts) r ?t ?w1)"
  let ?w2 = "snd (snd (try_block P ?m ?url (body opts) r ?t ?w1))"
  let ?w2' = "snd (snd (try_block P ?m ?url (body opts) (undisturbed r) ?t ?w1))"
  have cfg: "current_config ?w2 =
               overridden (current_config w) (overrides_seen P (body opts) r)"
    by (simp add: current_config_after_try current_config_setTimeout)
  have cfg': "current_config ?w2' = current_config w"
    by (simp add: current_config_after_try current_config_setTimeout
        overrides_seen_undisturbed overridden_def)
  have out: "outcome (apiRequest P opts r w) =
               (case ?res of Inl error \<Rightarrow> Inl (catch_block ?w2 error) | Inr v \<Rightarrow> Inr v)"
    by (rule apiRequest_url_ok(1) [OF Inr])
  have out': "outcome (apiRequest P opts (undisturbed r) w) =
               (case ?res of Inl error \<Rightarrow> Inl (catch_block ?w2' error) | Inr v \<Rightarrow> Inr v)"
    by (simp add: apiRequest_url_ok(1) [OF Inr] fst_try_block_undisturbed)
  have abort: "ends_in_abort P opts r w = (\<exists>e. ?res = Inl (Raw e) \<and> is_abort e)"
    by (auto simp add: ends_in_abort_def Inr fst_try_block_Raw split: option.split)
  have aborted: "outcome (apiRequest P opts r w) =
        Inl (Api (timeout_error
          (timeoutMs (overridden (current_config w) (overrides_seen P (body opts) r))))) \<and>
      outcome (apiRequest P opts (undisturbed r) w) =
        Inl (Api (timeout_error (timeoutMs (current_config w))))"
    if "ends_in_abort P opts r w"
  proof -
    from that abort obtain e where "?res = Inl (Raw e)" "is_abort e" by blast
    with out out' cfg cfg' show ?thesis by (simp add: catch_block_def)
  qed
  have quiet: "outcome (apiRequest P opts r w) = outcome (apiRequest P opts (undisturbed r) w)"
    if "\<not> ends_in_abort P opts r w"
  proof (cases ?res)
    case (Inr v)
    with out out' show ?thesis by simp
  next
    case (Inl error)
    show ?thesis
    proof (cases error)
      case (Api a)
      with Inl out out' show ?thesis by (simp add: catch_block_def)
    next
      case (Raw e)
      with Inl that abort have "\<not> is_abort e" by simp
      with Raw Inl out out' show ?thesis by (simp add: catch_block_def)
    qed
  qed
  have "dispatched (apiRequest P opts r w) = dispatched (apiRequest P opts (undisturbed r) w)"
    by (simp add: apiRequest_url_ok(2) [OF Inr] call_try_block_undisturbed)
  moreover have "timer_started (apiRequest P opts r w)
                   = timer_started (apiRequest P opts (undisturbed r) w)"
    by (simp add: apiRequest_url_ok(3) [OF Inr])
  ultimately show ?thesis using aborted quiet by blast
qed

theorem mid_call_setConfig_effect_witness:
  "outcome (apiRequest sample_platform health
      \<lparr>fetch_promise = Fulfilled
         \<lparr>status = 200, content_type = Some ''application/json'',
          text_promise = Fulfilled ''{}'', json_promise = TimerFirst\<rparr>,
       during_fetch = [\<lparr>baseUrl_opt = None, timeoutMs_opt = Some 5000\<rparr>],
       during_body = [\<lparr>baseUrl_opt = None, timeoutMs_opt = Some 7000\<rparr>]\<rparr>
      (initial_world None))
   = Inl (Api \<lparr>message = ''Request timed out after 7000ms. Try again or increase timeout.'',
               statusCode = 0\<rparr>) \<and>
   outcome (apiRequest sample_platform health
      \<lparr>fetch_promise = Fulfilled
         \<lparr>status = 404, content_type = None, text_promise = Fulfilled ''not found'',
          json_promise = TimerFirst\<rparr>,
       during_fetch = [\<lparr>baseUrl_opt = Some ''https://other.example'', timeoutMs_opt = Some 1\<rparr>],
       during_body = []\<rparr>
      (initial_world None))
   = Inl (Api \<lparr>message = ''API request failed with status 404: not found'',
               statusCode = 404\<rparr>) \<and>
   map_option call_url (dispatched (apiRequest sample_platform health
      \<lparr>fetch_promise = Fulfilled
         \<lparr>status = 404, content_type = None, text_promise = Fulfilled ''not found'',
          json_promise = TimerFirst\<rparr>,
       during_fetch = [\<lparr>baseUrl_opt = Some ''https://other.example'', timeoutMs_opt = Some 1\<rparr>],
       during_body = []\<rparr>
      (initial_world None)))
   = Some ''https://djd-agent-score.fly.dev/health''"
proof -
  let ?a = "\<lparr>fetch_promise = Fulfilled
         \<lparr>status = 200, content_type = Some ''application/json'',
          text_promise = Fulfilled ''{}'', json_promise = TimerFirst\<rparr>,
       during_fetch = [\<lparr>baseUrl_opt = None, timeoutMs_opt = Some 5000\<rparr>],
       during_body = [\<lparr>baseUrl_opt = None, timeoutMs_opt = Some 7000\<rparr>]\<rparr>"
  let ?r = "\<lparr>fetch_promise = Fulfilled
         \<lparr>status = 404, content_type = None, text_promise = Fulfilled ''not found'',
          json_promise = TimerFirst\<rparr>,
       during_fetch = [\<lparr>baseUrl_opt = Some ''https://other.example'', timeoutMs_opt = Some 1\<rparr>],
       during_body = []\<rparr>"
  have n: "Number_toString 404 = ''404''" "Number_toString 7000 = ''7000''"
    by (simp_all add: Number_toString_def string_of_nat.simps digit_char_def)
  have abort: "ends_in_abort sample_platform health ?a (initial_world None)"
    by (simp add: ends_in_abort_def raised_in_try_def body_rejection_def body_argument_def
        sample_platform_def health_def ok_def json_content_def str_includes_def
        sublist_Cons_right abort_error_def)
  have seen: "timeoutMs (overridden (current_config (initial_world None))
                (overrides_seen sample_platform (body health) ?a)) = 7000"
    by (simp add: overrides_seen_def body_argument_def health_def overridden_def spread_def)
  have calm: "\<not> ends_in_abort sample_platform health ?r (initial_world None)"
    by (simp add: ends_in_abort_def raised_in_try_def body_rejection_def body_argument_def
        sample_platform_def health_def ok_def)
  have quiet: "outcome (apiRequest sample_platform health (undisturbed ?r) (initial_world None))
      = Inl (Api \<lparr>message = ''API request failed with status 404: not found'',
                  statusCode = 404\<rparr>)"
    "map_option call_url
       (dispatched (apiRequest sample_platform health (undisturbed ?r) (initial_world None)))
      = Some ''https://djd-agent-score.fly.dev/health''"
    by (simp_all add: apiRequest_def try_block_def on_response_def await_def catch_block_def
        body_argument_def sample_platform_def health_def Let_def setTimeout_def ok_def
        http_error_def n undisturbed_def DEFAULT_CONFIG_def)
  from mid_call_setConfig_effect [of sample_platform health ?a "initial_world None"] abort seen
    mid_call_setConfig_effect [of sample_platform health ?r "initial_world None"] calm quiet
  show ?thesis
    by (simp add: timeout_error_def n)
qed

text \<open>
  The claim as stated fails for the duration in the message of a Timeout failure: the
  \<open>catch\<close> block reads \<open>config.timeoutMs\<close> when the abort is handled. A call started
  with the default 10000 ms, whose timer is started with 10000 ms, reports 5000 ms
  after \<open>setConfig({ timeoutMs: 5000 })\<close> was called while it waited.
\<close>

theorem mid_call_setConfig_effect_counterexample:
  "outcome (apiRequest sample_platform health
      \<lparr>fetch_promise = TimerFirst,
       during_fetch = [\<lparr>baseUrl_opt = None, timeoutMs_opt = Some 5000\<rparr>],
       during_body = []\<rparr>
      (initial_world None))
   = Inl (Api \<lparr>message = ''Request timed out after 5000ms. Try again or increase timeout.'',
               statusCode = 0\<rparr>) \<and>
   outcome (apiRequest sample_platform health
      \<lparr>fetch_promise = TimerFirst, during_fetch = [], during_body = []\<rparr>
      (initial_world None))
   = Inl (Api \<lparr>message = ''Request timed out after 10000ms. Try again or increase timeout.'',
               statusCode = 0\<rparr>) \<and>
   timer_started (apiRequest sample_platform health
      \<lparr>fetch_promise = TimerFirst,
       during_fetch = [\<lparr>baseUrl_opt = None, timeoutMs_opt = Some 5000\<rparr>],
       during_body = []\<rparr>
      (initial_world None))
   = Some (0, 10000)"
proof -
  have n: "Number_toString 5000 = ''5000''" "Number_toString 10000 = ''10000''"
    by (simp_all add: Number_toString_def string_of_nat.simps digit_char_def)
  show ?thesis
    by (simp add: apiRequest_def try_block_def await_def catch_block_def body_argument_def
        sample_platform_def health_def Let_def setTimeout_def timer_fires_def
        abort_error_def timeout_error_def n initial_world_def new_object_def
        DEFAULT_CONFIG_def setConfig_def current_config_def deref_def spread_def)
qed

subsection \<open>The configuration store: merging and copying\<close>

text \<open>
  Claim C8. \<open>setConfig\<close> replaces exactly the fields that the override provides and
  keeps every field it does not provide. In particular, after
  \<open>setConfig({ timeoutMs: 5000 })\<close> the object that \<open>getConfig\<close> returns has the
  \<open>baseUrl\<close> of before and \<open>timeoutMs\<close> 5000.
\<close>

theorem setConfig_merges_overrides:
  "(\<forall>b. baseUrl_opt ov = Some b \<longrightarrow> baseUrl (current_config (setConfig ov w)) = b) \<and>
   (baseUrl_opt ov = None \<longrightarrow>
      baseUrl (current_config (setConfig ov w)) = baseUrl (current_config w)) \<and>
   (\<forall>t. timeoutMs_opt ov = Some t \<longrightarrow> timeoutMs (current_config (setConfig ov w)) = t) \<and>
   (timeoutMs_opt ov = None \<longrightarrow>
      timeoutMs (current_config (setConfig ov w)) = timeoutMs (current_config w)) \<and>
   (case getConfig (setConfig \<lparr>baseUrl_opt = None, timeoutMs_opt = Some 5000\<rparr> w) of
      (r, w') \<Rightarrow>
        baseUrl (deref w' r) = baseUrl (current_config w) \<and> timeoutMs (deref w' r) = 5000)"
  by (simp add: current_config_setConfig spread_def getConfig_unfold deref_def)

theorem setConfig_merges_overrides_witness:
  "current_config (setConfig \<lparr>baseUrl_opt = None, timeoutMs_opt = Some 5000\<rparr>
      (initial_world None))
   = \<lparr>baseUrl = ''https://djd-agent-score.fly.dev'', timeoutMs = 5000\<rparr> \<and>
   current_config (setConfig \<lparr>baseUrl_opt = Some ''https://api.example'', timeoutMs_opt = None\<rparr>
      (initial_world None))
   = \<lparr>baseUrl = ''https://api.example'', timeoutMs = 10000\<rparr>"
  using setConfig_merges_overrides [of "\<lparr>baseUrl_opt = None, timeoutMs_opt = Some 5000\<rparr>" "initial_world None"]
    setConfig_merges_overrides [of "\<lparr>baseUrl_opt = Some ''https://api.example'', timeoutMs_opt = None\<rparr>"
      "initial_world None"]
  by (simp add: DEFAULT_CONFIG_def)

text \<open>
  Claim C9. \<open>getConfig\<close> returns a copy: the object returned holds the current
  configuration, it is not the object the module variable refers to, and whatever a
  caller does to it (\<open>f\<close>), the configuration of the module stays what it was and the
  next \<open>getConfig\<close> returns it again.
\<close>

theorem getConfig_returns_copy:
  assumes "well_formed w" and "getConfig w = (r, w')"
  shows "deref w' r = current_config w \<and>
         current_config w' = current_config w \<and>
         current_config (mutate r f w') = current_config w \<and>
         (case getConfig (mutate r f w') of (r2, w2) \<Rightarrow> deref w2 r2 = current_config w)"
proof -
  from assms(2) have r: "r = next_ref w"
    and w': "w' = w\<lparr>heap := (heap w)(next_ref w \<mapsto> current_config w),
                     next_ref := Suc (next_ref w)\<rparr>"
    by (auto simp add: getConfig_unfold)
  from assms(1) have ne: "config w \<noteq> next_ref w"
    by (simp add: well_formed_def)
  have 1: "deref w' r = current_config w"
    by (simp add: r w' deref_def)
  have 2: "current_config w' = current_config w"
    using ne by (simp add: w' current_config_def deref_def)
  have 3: "current_config (mutate r f w') = current_config w"
    using ne by (simp add: r w' mutate_def current_config_def deref_def)
  have 4: "deref (snd (getConfig (mutate r f w'))) (fst (getConfig (mutate r f w')))
             = current_config (mutate r f w')"
    by (simp add: getConfig_unfold deref_def)
  from 1 2 3 4 show ?thesis
    by (simp add: case_prod_beta)
qed

theorem getConfig_returns_copy_witness:
  "current_config
     (mutate (fst (getConfig (initial_world None)))
        (\<lambda>c. c\<lparr>baseUrl := ''http://other.example'', timeoutMs := 1\<rparr>)
        (snd (getConfig (initial_world None))))
   = \<lparr>baseUrl = ''https://djd-agent-score.fly.dev'', timeoutMs = 10000\<rparr>"
  using getConfig_returns_copy [of "initial_world None" "fst (getConfig (initial_world None))"
      "snd (getConfig (initial_world None))"
      "\<lambda>c. c\<lparr>baseUrl := ''http://other.example'', timeoutMs := 1\<rparr>"]
    well_formed_initial [of None]
  by (simp add: DEFAULT_CONFIG_def)
subsection \<open>A JSON body that cannot be read or parsed\<close>

text \<open>
  Claim C10. A 2xx response with a JSON content type was received, and \<open>json()\<close> throws
  (a \<open>SyntaxError\<close> of the parser, or an error of the body stream; not the abort of the
  call's own timer). The call throws the NetworkError failure with \<open>statusCode\<close> 0,
  which is neither an HttpError nor a PaymentRequired failure, although a response was
  received.
\<close>

theorem json_body_failure_is_network_error:
  assumes "new_URL P (path opts) (baseUrl (current_config w)) = Inr u"
    and "body_argument P (body opts) = Inr bs"
    and "fetch_promise r = Fulfilled response"
    and "ok response"
    and "json_content response"
    and "json_promise response = Rejected e"
    and "\<not> is_abort e"
  shows "outcome (apiRequest P opts r w) = Inl (Api (network_error e)) \<and>
         statusCode (network_error e) = 0 \<and>
         failure_of_kind NetworkError (network_error e) \<and>
         \<not> failure_of_kind HttpError (network_error e) \<and>
         \<not> failure_of_kind PaymentRequired (network_error e)"
proof -
  have "outcome (apiRequest P opts r w) = Inl (Api (network_error e))"
    using assms(5-7) by (simp add: outcome_ok_response [OF assms(1-4)] catch_block_def)
  moreover have "statusCode (network_error e) = 0"
    by (simp add: network_error_def)
  moreover have "\<not> failure_of_kind HttpError (network_error e)"
    by (simp add: failure_of_kind.simps network_error_def http_error_def)
  moreover have "\<not> failure_of_kind PaymentRequired (network_error e)"
    by (simp add: failure_of_kind.simps network_error_def payment_required_error_def)
  ultimately show ?thesis
    using failure_of_kind.intros(4) by blast
qed

theorem json_body_failure_is_network_error_witness:
  "outcome (apiRequest sample_platform health
      \<lparr>fetch_promise = Fulfilled
         \<lparr>status = 200, content_type = Some ''application/json'',
          text_promise = Fulfilled ''<html>'',
          json_promise = Rejected (ErrorObject ''SyntaxError'' ''Unexpected token <'')\<rparr>,
       during_fetch = [], during_body = []\<rparr>
      (initial_world None))
   = Inl (Api \<lparr>message = ''Network error: Unexpected token <'', statusCode = 0\<rparr>)"
  using json_body_failure_is_network_error [of sample_platform health "initial_world None"
      "''https://djd-agent-score.fly.dev/health''" None
      "\<lparr>fetch_promise = Fulfilled
         \<lparr>status = 200, content_type = Some ''application/json'',
          text_promise = Fulfilled ''<html>'',
          json_promise = Rejected (ErrorObject ''SyntaxError'' ''Unexpected token <'')\<rparr>,
        during_fetch = [], during_body = []\<rparr>"
      "\<lparr>status = 200, content_type = Some ''application/json'',
        text_promise = Fulfilled ''<html>'',
        json_promise = Rejected (ErrorObject ''SyntaxError'' ''Unexpected token <'')\<rparr>"
      "ErrorObject ''SyntaxError'' ''Unexpected token <''"]
  by (simp add: sample_eval)

end
